theory Spec2Isabelle
  imports Main "HOL-Library.List_Lexorder"
begin

section \<open>Python values used by the gateway\<close>

text \<open>
  A Python \<open>str\<close> is a sequence of Unicode code points, and \<open>len\<close>, slicing and
  comparison work on code points. It is modelled as a list of naturals, one per code
  point; the lexicographic order on lists is the order Python's \<open>sorted\<close> uses on \<open>str\<close>.
  \<open>lit\<close> embeds an ASCII literal of the source. \<open>bytes\<close> is a list of octets.
\<close>

type_synonym pystr = "nat list"

type_synonym pybytes = "nat list"

definition lit :: "string \<Rightarrow> pystr" where
  "lit s = map of_char s"

text \<open>\<open>str.startswith\<close> and \<open>str.endswith\<close> with one string argument.\<close>

fun startswith :: "pystr \<Rightarrow> pystr \<Rightarrow> bool" where
  "startswith s [] = True"
| "startswith [] (p # ps) = False"
| "startswith (c # s) (p # ps) = (c = p \<and> startswith s ps)"

definition endswith :: "pystr \<Rightarrow> pystr \<Rightarrow> bool" where
  "endswith s x = startswith (rev s) (rev x)"

text \<open>\<open>s.rstrip(c)\<close> for a one-character argument: every trailing \<open>c\<close> is removed.\<close>

definition rstrip :: "nat \<Rightarrow> pystr \<Rightarrow> pystr" where
  "rstrip c s = rev (dropWhile (\<lambda>x. x = c) (rev s))"

text \<open>\<open>sep.join(parts)\<close>.\<close>

fun join :: "pystr \<Rightarrow> pystr list \<Rightarrow> pystr" where
  "join sep [] = []"
| "join sep [x] = x"
| "join sep (x # y # ys) = x @ sep @ join sep (y # ys)"

text \<open>\<open>str(n)\<close> for an \<open>int\<close>: the decimal digits, with a minus sign when negative.\<close>

fun str_nat :: "nat \<Rightarrow> pystr" where
  "str_nat n = (if n < 10 then [48 + n] else str_nat (n div 10) @ [48 + n mod 10])"

declare str_nat.simps [simp del]

definition str_int :: "int \<Rightarrow> pystr" where
  "str_int i = (if i < 0 then 45 # str_nat (nat (- i)) else str_nat (nat i))"

text \<open>
  What a \<open>try\<close> block can raise. \<open>except Exception\<close> handles the instances of
  \<open>Exception\<close>; an instance of \<open>BaseException\<close> that is not an \<open>Exception\<close>
  (task cancellation, interpreter exit) passes through it. Both carry \<open>str(e)\<close>.
\<close>

datatype py_exception = Exception pystr | BaseExceptionOnly pystr

text \<open>
  The records handed to the \<open>logging\<close> module, in call order. Whether a record reaches
  an output depends on the logging configuration, which is outside this model.
\<close>

datatype level = INFO | WARNING | ERROR

record log_record =
  levelname :: level
  message :: pystr
  exc_info :: bool

definition info :: "pystr \<Rightarrow> log_record" where
  "info m = \<lparr>levelname = INFO, message = m, exc_info = False\<rparr>"

definition warning :: "pystr \<Rightarrow> log_record" where
  "warning m = \<lparr>levelname = WARNING, message = m, exc_info = False\<rparr>"

definition records_at :: "level \<Rightarrow> log_record list \<Rightarrow> log_record list" where
  "records_at l rs = filter (\<lambda>r. levelname r = l) rs"


section \<open>services/flow\_router\_service.py\<close>

subsection \<open>Path templates of the routing library\<close>

text \<open>
  The decorator \<open>@router.post(endpoint, ...)\<close> hands the path to the routing library,
  which reads it as a template: its \<open>compile_path\<close> scans the path from the left for
  \<open>{name}\<close> and \<open>{name:convertor}\<close>, names being \<open>[a-zA-Z_][a-zA-Z0-9_]*\<close>, and every
  other character stands for itself. A compiled path is the list of its segments.
\<close>

datatype segment = Chr nat | Param pystr pystr

definition is_name_start :: "nat \<Rightarrow> bool" where
  "is_name_start c = (c = 0x5F \<or> (0x41 \<le> c \<and> c \<le> 0x5A) \<or> (0x61 \<le> c \<and> c \<le> 0x7A))"

definition is_name_char :: "nat \<Rightarrow> bool" where
  "is_name_char c = (is_name_start c \<or> (0x30 \<le> c \<and> c \<le> 0x39))"

text \<open>The longest name at the start of a string, empty when there is none.\<close>

definition name_at :: "pystr \<Rightarrow> pystr" where
  "name_at cs =
     (case cs of [] \<Rightarrow> [] | c # _ \<Rightarrow> if is_name_start c then takeWhile is_name_char cs else [])"

text \<open>
  A parameter right after an opening brace: its name, its convertor (\<open>str\<close> when none is
  written) and the number of characters it takes after the brace.
\<close>

definition param_at :: "pystr \<Rightarrow> (pystr \<times> pystr \<times> nat) option" where
  "param_at cs =
     (let name = name_at cs in
      if name = [] then None
      else
        (case drop (length name) cs of
           [] \<Rightarrow> None
         | c # cs' \<Rightarrow>
             if c = 0x7D then Some (name, lit ''str'', Suc (length name))
             else if c = 0x3A then
               (let conv = name_at cs' in
                if conv \<noteq> [] \<and> take 1 (drop (length conv) cs') = [0x7D]
                then Some (name, conv, length name + length conv + 2)
                else None)
             else None))"

text \<open>The scan; the first argument counts the characters still covered by the last match.\<close>

fun param_scan :: "nat \<Rightarrow> pystr \<Rightarrow> segment list" where
  "param_scan k [] = []"
| "param_scan (Suc k) (c # cs) = param_scan k cs"
| "param_scan 0 (c # cs) =
     (if c = 0x7B then
        (case param_at cs of
           Some (name, conv, n) \<Rightarrow> Param name conv # param_scan n cs
         | None \<Rightarrow> Chr c # param_scan 0 cs)
      else Chr c # param_scan 0 cs)"

definition param_names :: "segment list \<Rightarrow> pystr list" where
  "param_names segs = concat (map (\<lambda>s. case s of Param name conv \<Rightarrow> [name] | Chr c \<Rightarrow> []) segs)"

definition param_convertors :: "segment list \<Rightarrow> pystr list" where
  "param_convertors segs =
     concat (map (\<lambda>s. case s of Param name conv \<Rightarrow> [conv] | Chr c \<Rightarrow> []) segs)"

text \<open>
  \<open>compile_path\<close> for a path that starts with a slash. The table of convertors
  (\<open>CONVERTOR_TYPES\<close>: for each convertor, the strings its regular expression matches) is a
  parameter. An unknown convertor fails the assertion inside the scan; a parameter name
  that occurs twice raises \<open>ValueError\<close> after it.
\<close>

definition compile_path :: "(pystr \<rightharpoonup> (pystr \<Rightarrow> bool)) \<Rightarrow> pystr \<Rightarrow> py_exception + segment list" where
  "compile_path types path =
     (let segs = param_scan 0 path; names = param_names segs in
      case find (\<lambda>conv. types conv = None) (param_convertors segs) of
        Some conv \<Rightarrow> Inl (Exception (lit ''Unknown path convertor '' @ [0x27] @ conv @ [0x27]))
      | None \<Rightarrow>
          (let duplicated = sort (remdups (filter (\<lambda>n. 1 < count_list names n) names)) in
           if duplicated \<noteq> [] then
             Inl (Exception (lit ''Duplicated param name'' @
                             (if 1 < length duplicated then lit ''s'' else []) @ lit '' '' @
                             join (lit '', '') duplicated @ lit '' at path '' @ path))
           else Inr segs))"

text \<open>
  Whether the regular expression of a compiled path matches a request path: a literal
  character matches itself, a parameter matches a piece its convertor accepts, and the
  closing \<open>$\<close> matches at the end or before one final newline.
\<close>

fun path_regex_match :: "(pystr \<rightharpoonup> (pystr \<Rightarrow> bool)) \<Rightarrow> segment list \<Rightarrow> pystr \<Rightarrow> bool" where
  "path_regex_match types [] p = (p = [] \<or> p = [0x0A])"
| "path_regex_match types (Chr c # segs) p =
     (case p of [] \<Rightarrow> False | d # ds \<Rightarrow> c = d \<and> path_regex_match types segs ds)"
| "path_regex_match types (Param name conv # segs) p =
     (case types conv of
        None \<Rightarrow> False
      | Some accepts \<Rightarrow>
          list_ex (\<lambda>k. accepts (take k p) \<and> path_regex_match types segs (drop k p))
            [0..<Suc (length p)])"

text \<open>
  What the service uses of the web framework: the convertor table, and the checks the
  framework runs, when a route is declared, on the parameters of the endpoint function
  against the names of the path parameters (\<open>None\<close> when they pass).
\<close>

record framework =
  convertor_types :: "pystr \<rightharpoonup> (pystr \<Rightarrow> bool)"
  analyze_params :: "pystr list \<Rightarrow> py_exception option"

subsection \<open>The service\<close>

text \<open>
  \<open>schemas.FlowRead\<close> is declared outside the files at hand; the three attributes the
  service reads are kept. \<open>flow_body\<close> is either an object with a \<open>model_dump\<close> method
  or a plain value; \<open>'d\<close> is the type of the dumped document.
\<close>

datatype 'd flow_body = Model 'd | Plain 'd

record 'd flow_read =
  endpoint :: pystr
  description :: pystr
  flow_body :: "'d flow_body"

text \<open>
  A route of the application: the path as declared, its compiled form, and the rest. The
  endpoint function of a dynamic route is the closure \<open>execute_flow_endpoint\<close>, represented
  by the flow it captures; the application's other routes carry a name only.
\<close>

datatype 'd endpoint_function = ExecuteFlowEndpoint "'d flow_read" | BuiltinEndpoint pystr

record 'd api_route =
  route_path :: pystr
  path_regex :: "segment list"
  route_methods :: "pystr list"
  route_tags :: "pystr list"
  route_summary :: pystr
  route_endpoint :: "'d endpoint_function"

record 'd api_router =
  routes :: "'d api_route list"

text \<open>
  Declaring a route: the path is compiled, then the endpoint function's parameters are
  checked against the path parameters; either step can raise. A path without parameters
  passes the second step.
\<close>

definition api_route_init ::
  "framework \<Rightarrow> pystr \<Rightarrow> pystr list \<Rightarrow> pystr list \<Rightarrow> pystr \<Rightarrow> 'd endpoint_function \<Rightarrow>
   py_exception + 'd api_route" where
  "api_route_init fw path methods tags summary f =
     (case compile_path (convertor_types fw) path of
        Inl e \<Rightarrow> Inl e
      | Inr segs \<Rightarrow>
          (case (if param_names segs = [] then None else analyze_params fw (param_names segs)) of
             Some e \<Rightarrow> Inl e
           | None \<Rightarrow>
               Inr \<lparr>route_path = path, path_regex = segs, route_methods = methods,
                    route_tags = tags, route_summary = summary, route_endpoint = f\<rparr>))"

text \<open>The \<open>FastAPI\<close> object as far as the service touches it.\<close>

record ('d, 'sch) fastapi =
  app_routes :: "'d api_route list"
  openapi_schema :: "'sch option"

definition include_router :: "('d, 'sch) fastapi \<Rightarrow> 'd api_router \<Rightarrow> ('d, 'sch) fastapi" where
  "include_router a r = a\<lparr>app_routes := app_routes a @ routes r\<rparr>"

text \<open>
  \<open>FlowRouterService\<close>: the application, the dictionary \<open>dynamic_routers\<close> and the
  records sent to the module's logger.
\<close>

record ('d, 'sch) flow_router_service =
  app :: "('d, 'sch) fastapi"
  dynamic_routers :: "pystr \<rightharpoonup> 'd api_router"
  logger :: "log_record list"

definition init :: "('d, 'sch) fastapi \<Rightarrow> ('d, 'sch) flow_router_service" where
  "init a = \<lparr>app = a, dynamic_routers = Map.empty, logger = []\<rparr>"

definition run_path :: "pystr \<Rightarrow> pystr" where
  "run_path e = lit ''/run/'' @ e"

text \<open>
  \<open>router = APIRouter()\<close> followed by the decorated definition of the handler: the
  router with the one declared route, or the exception the declaration raises.
\<close>

definition flow_router :: "framework \<Rightarrow> 'd flow_read \<Rightarrow> py_exception + 'd api_router" where
  "flow_router fw flow =
     (case api_route_init fw (run_path (endpoint flow)) [lit ''POST''] [lit ''Runnable Flows'']
             (description flow) (ExecuteFlowEndpoint flow) of
        Inl e \<Rightarrow> Inl e
      | Inr route \<Rightarrow> Inr \<lparr>routes = [route]\<rparr>)"

text \<open>
  \<open>add_flow_route\<close>: the service afterwards, or the exception that leaves the method. The
  route is declared before any attribute of the service is written, so an exception leaves
  the service as it was.
\<close>

definition add_flow_route ::
  "framework \<Rightarrow> ('d, 'sch) flow_router_service \<Rightarrow> 'd flow_read \<Rightarrow>
   py_exception + ('d, 'sch) flow_router_service" where
  "add_flow_route fw self flow =
     (let endpoint = run_path (endpoint flow) in
      if endpoint \<in> dom (dynamic_routers self) then
        Inr (self\<lparr>logger := logger self @
               [info (lit ''Route '' @ endpoint @ lit '' already exists. Skipping.'')]\<rparr>)
      else
        (case flow_router fw flow of
           Inl e \<Rightarrow> Inl e
         | Inr router \<Rightarrow>
             Inr (self\<lparr>app := (include_router (app self) router)\<lparr>openapi_schema := None\<rparr>,
                      dynamic_routers := (dynamic_routers self)(endpoint \<mapsto> router),
                      logger := logger self @
                        [info ([0x2705] @ lit '' Dynamically added route: POST '' @ endpoint)]\<rparr>)))"

definition remove_flow_route ::
  "('d, 'sch) flow_router_service \<Rightarrow> pystr \<Rightarrow> ('d, 'sch) flow_router_service" where
  "remove_flow_route self flow_endpoint =
     (let endpoint = run_path flow_endpoint in
      if endpoint \<in> dom (dynamic_routers self) then
        self\<lparr>dynamic_routers := (dynamic_routers self)(endpoint := None),
             app := (app self)\<lparr>openapi_schema := None\<rparr>,
             logger := logger self @
               [info ([0x26A0, 0xFE0F] @ lit '' Dynamically '' @ [0x27] @ lit ''deactivated'' @ [0x27] @
                      lit '' route: '' @ endpoint @
                      lit ''. Full removal requires restart.'')]\<rparr>
      else
        self\<lparr>logger := logger self @
               [warning (lit ''Route '' @ endpoint @ lit '' not found for removal.'')]\<rparr>)"

text \<open>
  The serving surface answers a \<open>POST\<close> on a request path with the first attached route
  whose compiled path matches it and whose methods include \<open>POST\<close>.
\<close>

definition serves :: "framework \<Rightarrow> ('d, 'sch) fastapi \<Rightarrow> pystr \<Rightarrow> 'd api_route option" where
  "serves fw a p =
     find (\<lambda>r. path_regex_match (convertor_types fw) (path_regex r) p \<and>
               lit ''POST'' \<in> set (route_methods r)) (app_routes a)"

subsection \<open>The bound handler\<close>

text \<open>
  The result object of \<open>langflow_service.execute_flow\<close>; its class is declared outside
  the files at hand, so the attribute types are parameters.
\<close>

record ('o, 'e, 's, 't) execution_result =
  success :: bool
  outputs :: 'o
  error :: 'e
  session_id :: 's
  execution_time :: 't

text \<open>The values stored in the dictionary the handler returns, in insertion order.\<close>

datatype ('o, 'e, 's, 't) envelope_value =
  VBool bool | VOutputs 'o | VError 'e | VSessionId 's | VExecutionTime 't | VStr pystr

type_synonym ('o, 'e, 's, 't) envelope = "(string \<times> ('o, 'e, 's, 't) envelope_value) list"

definition model_dump :: "'d flow_body \<Rightarrow> 'd" where
  "model_dump b = (case b of Model d \<Rightarrow> d | Plain d \<Rightarrow> d)"

text \<open>
  \<open>execute_flow_endpoint\<close>, the closure over \<open>flow\<close>. The engine call is a parameter:
  it returns a result object or raises. The handler yields the records it logs and
  either the dictionary it returns or the exception that leaves it.
\<close>

definition execute_flow_endpoint ::
  "'d flow_read \<Rightarrow> ('d \<Rightarrow> 'i \<Rightarrow> py_exception + ('o, 'e, 's, 't) execution_result) \<Rightarrow> 'i \<Rightarrow>
   log_record list \<times> (py_exception + ('o, 'e, 's, 't) envelope)" where
  "execute_flow_endpoint flow execute_flow user_input =
     (let flow_definition = model_dump (flow_body flow) in
      case execute_flow flow_definition user_input of
        Inr execution_result \<Rightarrow>
          if success execution_result then
            ([], Inr [(''success'', VBool True),
                      (''result'', VOutputs (outputs execution_result)),
                      (''session_id'', VSessionId (session_id execution_result)),
                      (''execution_time'', VExecutionTime (execution_time execution_result))])
          else
            ([], Inr [(''success'', VBool False), (''error'', VError (error execution_result))])
      | Inl (Exception e) \<Rightarrow>
          ([\<lparr>levelname = ERROR,
             message = lit ''Error executing dynamic flow '' @ [0x27] @ endpoint flow @ [0x27] @
                       lit '': '' @ e,
             exc_info = True\<rparr>],
           Inr [(''success'', VBool False), (''error'', VStr e)])
      | Inl (BaseExceptionOnly e) \<Rightarrow> ([], Inl (BaseExceptionOnly e)))"


section \<open>core/app\_factory.py: the middleware\<close>

text \<open>
  The request as the two middleware functions read it: \<open>request.method\<close>,
  \<open>request.url.path\<close>, the header list (names in lower case, as the server delivers
  them), the outcome of \<open>await request.body()\<close>, \<open>request.client.host\<close> (\<open>None\<close> when
  \<open>request.client\<close> is \<open>None\<close>) and \<open>request.scope["root_path"]\<close>.
\<close>

record request =
  req_method :: pystr
  req_path :: pystr
  req_headers :: "(pystr \<times> pystr) list"
  req_body :: "py_exception + pybytes"
  req_client_host :: "pystr option"
  root_path :: pystr

text \<open>The response of the downstream application; only \<open>status_code\<close> is read.\<close>

record response =
  status_code :: int

subsection \<open>ForwardedPrefixMiddleware\<close>

definition headers_get :: "(pystr \<times> pystr) list \<Rightarrow> pystr \<Rightarrow> pystr option" where
  "headers_get hs k = map_of hs k"

text \<open>
  The assignment to \<open>request.scope["root_path"]\<close>. \<open>if prefix:\<close> is false for \<open>None\<close>
  and for the empty string.
\<close>

definition forwarded_prefix :: "request \<Rightarrow> request" where
  "forwarded_prefix request =
     (case headers_get (req_headers request) (lit ''x-forwarded-prefix'') of
        None \<Rightarrow> request
      | Some prefix \<Rightarrow>
          if prefix \<noteq> [] then request\<lparr>root_path := rstrip 0x2F prefix\<rparr> else request)"

definition dispatch :: "request \<Rightarrow> (request \<Rightarrow> 'a) \<Rightarrow> 'a" where
  "dispatch request call_next = call_next (forwarded_prefix request)"

subsection \<open>log\_requests\<close>

text \<open>
  A match reported by \<open>scrub_text\<close> is a dictionary; the middleware reads its
  \<open>"type"\<close> entry only.
\<close>

record pii_hit =
  hit_type :: pystr

text \<open>
  What \<open>log_requests\<close> calls or reads outside itself: \<open>bytes.decode("utf-8",
  errors="replace")\<close>, the scrubber of \<open>services.pii_service\<close>, the downstream
  application \<open>call_next\<close>, an exception raised by an operation inside the \<open>try\<close> block
  of the noise filter (\<open>None\<close> when the block runs through), and the text of
  \<open>f"{process_time:.3f}"\<close> computed from the clock.
\<close>

record 'r environment =
  decode :: "pybytes \<Rightarrow> pystr"
  scrub_text :: "pystr \<Rightarrow> py_exception + pystr \<times> pii_hit list"
  call_next :: "request \<Rightarrow> py_exception + 'r response_scheme"
  filter_fault :: "py_exception option"
  process_time :: pystr

text \<open>\<open>sorted({hit["type"] for hit in body_hits})\<close>.\<close>

definition masked_types :: "pii_hit list \<Rightarrow> pystr list" where
  "masked_types body_hits = sort (remdups (map hit_type body_hits))"

definition body_line :: "request \<Rightarrow> pystr \<Rightarrow> log_record" where
  "body_line request masked_body =
     (let snippet = take 500 masked_body;
          suffix = (if length masked_body > 500 then lit ''...'' else [])
      in info ([0x1F4DD] @ lit '' '' @ req_method request @ lit '' '' @ req_path request @
               lit '' body: '' @ snippet @ suffix))"

definition pii_line :: "request \<Rightarrow> pii_hit list \<Rightarrow> log_record" where
  "pii_line request body_hits =
     info (lit ''[PII] path='' @ req_path request @ lit '' masked_types='' @
           join (lit '','') (masked_types body_hits))"

text \<open>
  The body of the first \<open>try\<close> block: the records it logs, or the exception that ends it.
  Nothing is logged before the last operation that can raise.
\<close>

definition body_try :: "'r environment \<Rightarrow> request \<Rightarrow> py_exception + log_record list" where
  "body_try env request =
     (case req_body request of
        Inl e \<Rightarrow> Inl e
      | Inr body \<Rightarrow>
          if body \<noteq> [] then
            (case scrub_text env (decode env body) of
               Inl e \<Rightarrow> Inl e
             | Inr (masked_body, body_hits) \<Rightarrow>
                 Inr (body_line request masked_body #
                      (if body_hits \<noteq> [] then [pii_line request body_hits] else [])))
          else Inr [])"

text \<open>
  The body-logging stage: the \<open>POST\<close> test and the \<open>try\<close>/\<open>except Exception\<close>
  around the block. The second component is the exception that leaves the stage.
\<close>

definition body_logging :: "'r environment \<Rightarrow> request \<Rightarrow> log_record list \<times> py_exception option" where
  "body_logging env request =
     (if req_method request = lit ''POST'' then
        (case body_try env request of
           Inr records \<Rightarrow> (records, None)
         | Inl (Exception e) \<Rightarrow>
             ([warning ([0x26A0, 0xFE0F] @ lit '' Could not read request body: '' @ e)], None)
         | Inl (BaseExceptionOnly e) \<Rightarrow> ([], Some (BaseExceptionOnly e)))
      else ([], None))"

definition skip_prefixes :: "pystr list" where
  "skip_prefixes = map lit
     [''/'', ''/favicon.ico'', ''/admin'', ''/login'', ''/cgi-bin'', ''/console'', ''/helpdesk'',
      ''/owncloud'', ''/zabbix'', ''/WebInterface'', ''/api/session/properties'', ''/ssi.cgi'',
      ''/jasperserver'', ''/partymgr'', ''/css/'', ''/js/'', ''/version'']"

definition skip_suffixes :: "pystr list" where
  "skip_suffixes = map lit [''.php'', ''.pl'', ''.ico'', ''.html'', ''.js'', ''.png'']"

definition is_scanner_like :: "pystr \<Rightarrow> bool" where
  "is_scanner_like path =
     (path = lit ''/'' \<or>
      list_ex (\<lambda>p. startswith path p) skip_prefixes \<or>
      list_ex (\<lambda>s. endswith path s) skip_suffixes)"

text \<open>
  The body of the second \<open>try\<close> block: whether the \<open>return response\<close> of the noise
  filter is taken, or the exception that ends the block.
\<close>

definition noise_try :: "'r environment \<Rightarrow> request \<Rightarrow> 'r response_scheme \<Rightarrow> py_exception + bool" where
  "noise_try env request response =
     (case filter_fault env of
        Some e \<Rightarrow> Inl e
      | None \<Rightarrow>
          (let path = (if req_path request \<noteq> [] then req_path request else lit ''/'');
               is_get_404 = (req_method request = lit ''GET'' \<and> status_code response = 404)
           in Inr (is_get_404 \<and> is_scanner_like path)))"

definition access_lines :: "'r environment \<Rightarrow> request \<Rightarrow> 'r response_scheme \<Rightarrow> log_record list" where
  "access_lines env request response =
     (let client_host = (case req_client_host request of Some h \<Rightarrow> h | None \<Rightarrow> lit ''unknown'')
      in [info ([0x1F310] @ lit '' '' @ req_method request @ lit '' '' @ req_path request @
                lit '' - Client: '' @ client_host),
          info ([0x2705] @ lit '' '' @ req_method request @ lit '' '' @ req_path request @
                lit '' - Status: '' @ str_int (status_code response) @
                lit '' - Time: '' @ process_time env @ lit ''s'')])"

text \<open>
  \<open>log_requests\<close>: the records logged, and the response returned or the exception
  that leaves the middleware.
\<close>

definition log_requests ::
  "'r environment \<Rightarrow> request \<Rightarrow> log_record list \<times> (py_exception + 'r response_scheme)" where
  "log_requests env request =
     (case body_logging env request of
        (records, Some e) \<Rightarrow> (records, Inl e)
      | (records, None) \<Rightarrow>
          (case call_next env request of
             Inl e \<Rightarrow> (records, Inl e)
           | Inr response \<Rightarrow>
               (case noise_try env request response of
                  Inr True \<Rightarrow> (records, Inr response)
                | Inr False \<Rightarrow> (records @ access_lines env request response, Inr response)
                | Inl (Exception e) \<Rightarrow> (records @ access_lines env request response, Inr response)
                | Inl (BaseExceptionOnly e) \<Rightarrow> (records, Inl (BaseExceptionOnly e)))))"

subsection \<open>The middleware stack\<close>

text \<open>
  \<open>_add_middleware\<close> registers three middlewares with \<open>app.add_middleware\<close> (the decorator
  \<open>@app.middleware("http")\<close> registers \<open>log_requests\<close> the same way). The framework puts
  each new one in front of the list \<open>user_middleware\<close>, which is empty when the application
  is created, and builds the stack by wrapping the application from the last of the list to
  the first: the first of the list is outermost and sees the request first.
\<close>

datatype middleware = CORSMiddleware | ForwardedPrefixMiddleware | LogRequests

definition app_add_middleware :: "middleware list \<Rightarrow> middleware \<Rightarrow> middleware list" where
  "app_add_middleware user_middleware m = m # user_middleware"

text \<open>\<open>AppFactory._add_middleware\<close>.\<close>

definition factory_add_middleware :: "middleware list \<Rightarrow> middleware list" where
  "factory_add_middleware user_middleware =
     app_add_middleware
       (app_add_middleware (app_add_middleware user_middleware CORSMiddleware)
          ForwardedPrefixMiddleware)
       LogRequests"

text \<open>
  A stage of the stack yields the records logged while it runs and the response or the
  exception. \<open>log_requests\<close> around a downstream stage that may log itself:
\<close>

type_synonym 'r stage = "request \<Rightarrow> log_record list \<times> (py_exception + 'r response_scheme)"

definition log_requests_stage :: "'r environment \<Rightarrow> 'r stage \<Rightarrow> 'r stage" where
  "log_requests_stage env inner request =
     (case body_logging env request of
        (records, Some e) \<Rightarrow> (records, Inl e)
      | (records, None) \<Rightarrow>
          (case inner request of
             (inner_records, Inl e) \<Rightarrow> (records @ inner_records, Inl e)
           | (inner_records, Inr response) \<Rightarrow>
               (case noise_try env request response of
                  Inr True \<Rightarrow> (records @ inner_records, Inr response)
                | Inr False \<Rightarrow>
                    (records @ inner_records @ access_lines env request response, Inr response)
                | Inl (Exception e) \<Rightarrow>
                    (records @ inner_records @ access_lines env request response, Inr response)
                | Inl (BaseExceptionOnly e) \<Rightarrow>
                    (records @ inner_records, Inl (BaseExceptionOnly e)))))"

text \<open>
  The stack over an application. The CORS middleware belongs to the framework and is a
  parameter.
\<close>

fun build_middleware_stack ::
  "'r environment \<Rightarrow> ('r stage \<Rightarrow> 'r stage) \<Rightarrow> middleware list \<Rightarrow> 'r stage \<Rightarrow> 'r stage" where
  "build_middleware_stack env cors [] inner = inner"
| "build_middleware_stack env cors (m # ms) inner =
     (case m of
        LogRequests \<Rightarrow> log_requests_stage env (build_middleware_stack env cors ms inner)
      | ForwardedPrefixMiddleware \<Rightarrow>
          (\<lambda>request. dispatch request (build_middleware_stack env cors ms inner))
      | CORSMiddleware \<Rightarrow> cors (build_middleware_stack env cors ms inner))"

subsection \<open>Sample inputs\<close>

text \<open>A decoder for ASCII bodies, where UTF-8 decoding is the identity on code points.\<close>

definition ascii_decode :: "pybytes \<Rightarrow> pystr" where
  "ascii_decode b = b"

definition scrub_sample :: "pystr \<Rightarrow> py_exception + pystr \<times> pii_hit list" where
  "scrub_sample text =
     Inr (text, [\<lparr>hit_type = lit ''phone''\<rparr>, \<lparr>hit_type = lit ''email''\<rparr>,
                 \<lparr>hit_type = lit ''phone''\<rparr>])"


definition respond :: "int \<Rightarrow> request \<Rightarrow> py_exception + response" where
  "respond code request = Inr \<lparr>status_code = code\<rparr>"

definition sample_env :: "int \<Rightarrow> unit environment" where
  "sample_env code =
     \<lparr>decode = ascii_decode, scrub_text = scrub_sample, call_next = respond code,
      filter_fault = None, process_time = lit ''0.001''\<rparr>"

definition sample_request :: "string \<Rightarrow> string \<Rightarrow> pybytes \<Rightarrow> request" where
  "sample_request m p b =
     \<lparr>req_method = lit m, req_path = lit p, req_headers = [], req_body = Inr b,
      req_client_host = Some (lit ''10.0.0.7''), root_path = []\<rparr>"

definition sample_flow :: "pystr flow_read" where
  "sample_flow =
     \<lparr>endpoint = lit ''summarize'', description = lit ''Summarize a text'',
      flow_body = Plain (lit ''graph'')\<rparr>"

definition sample_app :: "(pystr, unit) fastapi" where
  "sample_app =
     \<lparr>app_routes = [\<lparr>route_path = lit ''/health'',
                     path_regex = map Chr (lit ''/health''), route_methods = [lit ''GET''],
                     route_tags = [], route_summary = [],
                     route_endpoint = BuiltinEndpoint (lit ''health'')\<rparr>],
      openapi_schema = Some ()\<rparr>"

text \<open>
  A framework with the library's convertors \<open>str\<close> (\<open>[^/]+\<close>), \<open>path\<close> (\<open>.*\<close>) and
  \<open>int\<close> (\<open>[0-9]+\<close>); its parameter check refuses a path parameter named \<open>user_input\<close>,
  the handler's body parameter.
\<close>

definition sample_convertors :: "pystr \<rightharpoonup> (pystr \<Rightarrow> bool)" where
  "sample_convertors =
     [lit ''str'' \<mapsto> (\<lambda>p. p \<noteq> [] \<and> 0x2F \<notin> set p),
      lit ''path'' \<mapsto> (\<lambda>p. 0x0A \<notin> set p),
      lit ''int'' \<mapsto> (\<lambda>p. p \<noteq> [] \<and> list_all (\<lambda>c. 0x30 \<le> c \<and> c \<le> 0x39) p)]"

definition sample_framework :: framework where
  "sample_framework =
     \<lparr>convertor_types = sample_convertors,
      analyze_params = (\<lambda>names. if lit ''user_input'' \<in> set names
         then Some (Exception (lit ''Path params must be of one of the supported types''))
         else None)\<rparr>"

text \<open>Flows whose endpoint names read as path templates.\<close>

definition twice_flow :: "pystr flow_read" where
  "twice_flow =
     \<lparr>endpoint = lit ''{x}/{x}'', description = lit ''Same parameter twice'',
      flow_body = Plain (lit ''graph'')\<rparr>"

definition int_flow :: "pystr flow_read" where
  "int_flow =
     \<lparr>endpoint = lit ''{x:int}'', description = lit ''Integer parameter'',
      flow_body = Plain (lit ''graph'')\<rparr>"

text \<open>The service after the sample flow has been registered on the fresh one.\<close>

definition sample_service :: "(pystr, unit) flow_router_service" where
  "sample_service =
     (case add_flow_route sample_framework (init sample_app) sample_flow of
        Inr s \<Rightarrow> s | Inl e \<Rightarrow> init sample_app)"

text \<open>The service after the flow with the integer parameter has been registered.\<close>

definition int_service :: "(pystr, unit) flow_router_service" where
  "int_service =
     (case add_flow_route sample_framework (init sample_app) int_flow of
        Inr s \<Rightarrow> s | Inl e \<Rightarrow> init sample_app)"

definition sample_result :: "bool \<Rightarrow> (pystr, pystr, pystr, nat) execution_result" where
  "sample_result ok =
     \<lparr>success = ok, outputs = lit ''out'', error = lit ''bad input'',
      session_id = lit ''s-1'', execution_time = 3\<rparr>"

definition engine_returns ::
  "bool \<Rightarrow> pystr \<Rightarrow> pystr \<Rightarrow> py_exception + (pystr, pystr, pystr, nat) execution_result" where
  "engine_returns ok flow_data inputs = Inr (sample_result ok)"

definition engine_raises ::
  "pystr \<Rightarrow> pystr \<Rightarrow> py_exception + (pystr, pystr, pystr, nat) execution_result" where
  "engine_raises flow_data inputs = Inl (Exception (lit ''timeout''))"


section \<open>The route registry\<close>

subsection \<open>Paths without template parameters\<close>

text \<open>
  A path without an opening brace compiles to itself, character by character, and its
  regular expression matches that path (and the path followed by one newline) only. For an
  endpoint name without an opening brace the route declaration therefore succeeds and
  \<open>add_flow_route\<close> returns.
\<close>

lemma find_app:
  "find P (xs @ ys) = (case find P xs of None \<Rightarrow> find P ys | Some x \<Rightarrow> Some x)"
  by (induction xs) auto

lemma param_scan_plain: "0x7B \<notin> set p \<Longrightarrow> param_scan 0 p = map Chr p"
  by (induction p) auto

lemma param_names_plain: "param_names (map Chr p) = []"
  by (induction p) (auto simp add: param_names_def)

lemma param_convertors_plain: "param_convertors (map Chr p) = []"
  by (induction p) (auto simp add: param_convertors_def)

lemma compile_path_plain: "0x7B \<notin> set p \<Longrightarrow> compile_path types p = Inr (map Chr p)"
  by (simp add: compile_path_def param_scan_plain param_names_plain param_convertors_plain)

lemma path_regex_match_plain:
  "path_regex_match types (map Chr p) q \<longleftrightarrow> (q = p \<or> q = p @ [0x0A])"
  by (induction p arbitrary: q) (auto split: list.splits)

lemma run_path_plain: "0x7B \<notin> set e \<Longrightarrow> 0x7B \<notin> set (run_path e)"
  by (simp add: run_path_def lit_def)

lemma flow_router_plain:
  "0x7B \<notin> set (endpoint f) \<Longrightarrow>
   flow_router fw f =
     Inr \<lparr>routes = [\<lparr>route_path = run_path (endpoint f),
                       path_regex = map Chr (run_path (endpoint f)),
                       route_methods = [lit ''POST''], route_tags = [lit ''Runnable Flows''],
                       route_summary = description f,
                       route_endpoint = ExecuteFlowEndpoint f\<rparr>]\<rparr>"
  by (simp add: flow_router_def api_route_init_def compile_path_plain run_path_plain
      param_names_plain)

lemma flow_router_route:
  "flow_router fw f = Inr router \<Longrightarrow>
   \<exists>segs. compile_path (convertor_types fw) (run_path (endpoint f)) = Inr segs \<and>
     routes router = [\<lparr>route_path = run_path (endpoint f), path_regex = segs,
                       route_methods = [lit ''POST''], route_tags = [lit ''Runnable Flows''],
                       route_summary = description f,
                       route_endpoint = ExecuteFlowEndpoint f\<rparr>]"
  by (auto simp add: flow_router_def api_route_init_def split: sum.splits option.splits if_splits)

lemma add_flow_route_plain_returns:
  "0x7B \<notin> set (endpoint f) \<Longrightarrow> \<exists>s'. add_flow_route fw s f = Inr s'"
  by (simp add: add_flow_route_def Let_def flow_router_plain)

lemma add_flow_route_registers:
  "add_flow_route fw s f = Inr s1 \<Longrightarrow> run_path (endpoint f) \<in> dom (dynamic_routers s1)"
  by (auto simp add: add_flow_route_def Let_def split: sum.splits if_splits)

lemma sample_service_added:
  "add_flow_route sample_framework (init sample_app) sample_flow = Inr sample_service"
proof -
  have "0x7B \<notin> set (endpoint sample_flow)"
    by (simp add: sample_flow_def lit_def)
  then obtain s' where "add_flow_route sample_framework (init sample_app) sample_flow = Inr s'"
    using add_flow_route_plain_returns by blast
  then show ?thesis by (simp add: sample_service_def)
qed

lemma int_service_added:
  "add_flow_route sample_framework (init sample_app) int_flow = Inr int_service"
proof -
  have "flow_router sample_framework int_flow =
      Inr \<lparr>routes = [\<lparr>route_path = lit ''/run/{x:int}'',
                        path_regex = map Chr (lit ''/run/'') @ [Param (lit ''x'') (lit ''int'')],
                        route_methods = [lit ''POST''], route_tags = [lit ''Runnable Flows''],
                        route_summary = description int_flow,
                        route_endpoint = ExecuteFlowEndpoint int_flow\<rparr>]\<rparr>"
    by (simp add: flow_router_def api_route_init_def compile_path_def
      int_flow_def run_path_def lit_def param_at_def name_at_def is_name_start_def
      is_name_char_def param_names_def param_convertors_def sample_framework_def
      sample_convertors_def)
  then have "\<exists>s. add_flow_route sample_framework (init sample_app) int_flow = Inr s"
    by (simp add: add_flow_route_def Let_def init_def)
  then show ?thesis by (auto simp add: int_service_def)
qed

subsection \<open>Registration\<close>

text \<open>
  C3, as the claim states it, fails: for the flow whose endpoint name is \<open>{x}/{x}\<close>,
  \<open>add_flow_route\<close> on the fresh service raises at the route declaration (the routing
  library refuses a path with the same parameter twice), before anything is stored. The
  service is as it was, so a second call does the same, and the derived path has no entry.
\<close>

theorem add_flow_route_twice_name_raises:
  "add_flow_route sample_framework (init sample_app) twice_flow =
     Inl (Exception (lit ''Duplicated param name x at path /run/{x}/{x}'')) \<and>
   dynamic_routers (init sample_app) (run_path (endpoint twice_flow)) = None"
  by (simp add: add_flow_route_def Let_def flow_router_def api_route_init_def compile_path_def
      init_def twice_flow_def run_path_def lit_def param_at_def name_at_def is_name_start_def
      is_name_char_def param_names_def param_convertors_def sample_framework_def
      sample_convertors_def)

text \<open>
  C3, amended. When \<open>add_flow_route\<close> with a flow returns, the path derived from its
  endpoint name is a key of \<open>dynamic_routers\<close>, the keys being those held before and this
  one; a second call with a flow of the same endpoint name returns too and changes nothing
  but the log, to which it appends the "already exists" line. The same holds in any state
  \<open>s'\<close> where the path is a key (also when the cached schema has been regenerated in
  between): the application, its routes and its cached schema, and the dictionary stay as
  they are. The first call returns for every endpoint name without an opening brace.
\<close>

theorem add_flow_route_idempotent:
  "(endpoint g = endpoint f \<and> add_flow_route fw s f = Inr s1 \<longrightarrow>
      run_path (endpoint f) \<in> dom (dynamic_routers s1) \<and>
      dom (dynamic_routers s1) = insert (run_path (endpoint f)) (dom (dynamic_routers s)) \<and>
      add_flow_route fw s1 g =
        Inr (s1\<lparr>logger := logger s1 @
          [info (lit ''Route /run/'' @ endpoint f @ lit '' already exists. Skipping.'')]\<rparr>)) \<and>
   (endpoint g = endpoint f \<and> run_path (endpoint f) \<in> dom (dynamic_routers s') \<longrightarrow>
      add_flow_route fw s' g =
        Inr (s'\<lparr>logger := logger s' @
          [info (lit ''Route /run/'' @ endpoint f @ lit '' already exists. Skipping.'')]\<rparr>)) \<and>
   (0x7B \<notin> set (endpoint f) \<longrightarrow> (\<exists>s2. add_flow_route fw s f = Inr s2))"
  using add_flow_route_plain_returns [of f fw s]
  by (auto simp add: add_flow_route_def Let_def run_path_def lit_def split: sum.splits if_splits)

theorem add_flow_route_idempotent_witness:
  "endpoint (sample_flow\<lparr>description := []\<rparr>) = endpoint sample_flow \<and>
   add_flow_route sample_framework (init sample_app) sample_flow = Inr sample_service \<and>
   0x7B \<notin> set (endpoint sample_flow) \<and>
   run_path (endpoint sample_flow) \<in> dom (dynamic_routers sample_service) \<and>
   add_flow_route sample_framework sample_service (sample_flow\<lparr>description := []\<rparr>) =
     Inr (sample_service\<lparr>logger := logger sample_service @
        [info (lit ''Route /run/'' @ endpoint sample_flow @ lit '' already exists. Skipping.'')]\<rparr>)"
proof -
  have same: "endpoint (sample_flow\<lparr>description := []\<rparr>) = endpoint sample_flow"
    by simp
  have plain: "0x7B \<notin> set (endpoint sample_flow)"
    by (simp add: sample_flow_def lit_def)
  from add_flow_route_idempotent [of "sample_flow\<lparr>description := []\<rparr>" sample_flow
      sample_framework "init sample_app" sample_service sample_service]
    same plain sample_service_added
  show ?thesis by blast
qed

text \<open>
  C4, as the claim states it, fails. For the endpoint name \<open>{x}/{x}\<close> the call raises at
  the route declaration and nothing is inserted, attached or invalidated. For the endpoint
  name \<open>{x:int}\<close> the call returns and the derived path \<open>/run/{x:int}\<close> is a key of the
  dictionary, but the application does not serve that path: the attached route answers
  \<open>/run/42\<close> instead.
\<close>

theorem add_flow_route_template_names:
  "add_flow_route sample_framework (sample_service\<lparr>logger := []\<rparr>) twice_flow =
     Inl (Exception (lit ''Duplicated param name x at path /run/{x}/{x}'')) \<and>
   add_flow_route sample_framework (init sample_app) int_flow = Inr int_service \<and>
   dynamic_routers int_service (lit ''/run/{x:int}'') \<noteq> None \<and>
   serves sample_framework (app int_service) (lit ''/run/{x:int}'') = None \<and>
   map_option route_endpoint (serves sample_framework (app int_service) (lit ''/run/42'')) =
     Some (ExecuteFlowEndpoint int_flow)"
proof -
  have twice: "flow_router sample_framework twice_flow =
      Inl (Exception (lit ''Duplicated param name x at path /run/{x}/{x}''))"
    by (simp add: flow_router_def api_route_init_def compile_path_def
      twice_flow_def run_path_def lit_def param_at_def name_at_def is_name_start_def
      is_name_char_def param_names_def param_convertors_def sample_framework_def
      sample_convertors_def)
  have absent: "run_path (endpoint twice_flow) \<notin> dom (dynamic_routers sample_service)"
    by code_simp
  have raised: "add_flow_route sample_framework (sample_service\<lparr>logger := []\<rparr>) twice_flow =
     Inl (Exception (lit ''Duplicated param name x at path /run/{x}/{x}''))"
    using twice absent by (simp add: add_flow_route_def Let_def)
  have registered: "dynamic_routers int_service (lit ''/run/{x:int}'') \<noteq> None"
    by code_simp
  have unserved: "serves sample_framework (app int_service) (lit ''/run/{x:int}'') = None"
    by code_simp
  have served: "map_option route_endpoint
      (serves sample_framework (app int_service) (lit ''/run/42'')) =
      Some (ExecuteFlowEndpoint int_flow)"
    by code_simp
  from raised int_service_added registered unserved served show ?thesis by blast
qed

text \<open>
  C4, amended. When the derived path is not yet registered and \<open>add_flow_route\<close>
  returns, the path is \<open>"/run/"\<close> followed by the endpoint name, the new router is stored
  under that path in \<open>dynamic_routers\<close> (every other key keeps its value), the router's
  single route, declared with the derived path and with the handler bound to this flow as
  endpoint function, is appended to the application's routes, and the cached schema is
  \<open>None\<close>. When the endpoint name has no opening brace, the application then serves the
  derived path, with this very handler when nothing served the path before; and for such
  a name the call does return.
\<close>

theorem add_flow_route_inserts:
  "(run_path (endpoint f) \<notin> dom (dynamic_routers s) \<and> add_flow_route fw s f = Inr s' \<longrightarrow>
      run_path (endpoint f) = lit ''/run/'' @ endpoint f \<and>
      (\<exists>router. flow_router fw f = Inr router \<and>
         dynamic_routers s' = (dynamic_routers s)(lit ''/run/'' @ endpoint f \<mapsto> router) \<and>
         map route_path (routes router) = [lit ''/run/'' @ endpoint f] \<and>
         map route_endpoint (routes router) = [ExecuteFlowEndpoint f] \<and>
         app_routes (app s') = app_routes (app s) @ routes router) \<and>
      openapi_schema (app s') = None \<and>
      (0x7B \<notin> set (endpoint f) \<longrightarrow>
         serves fw (app s') (lit ''/run/'' @ endpoint f) \<noteq> None \<and>
         (serves fw (app s) (lit ''/run/'' @ endpoint f) = None \<longrightarrow>
            map_option route_endpoint (serves fw (app s') (lit ''/run/'' @ endpoint f)) =
              Some (ExecuteFlowEndpoint f)))) \<and>
   (0x7B \<notin> set (endpoint f) \<longrightarrow> (\<exists>s2. add_flow_route fw s f = Inr s2))"
proof (intro conjI impI)
  assume h: "run_path (endpoint f) \<notin> dom (dynamic_routers s) \<and> add_flow_route fw s f = Inr s'"
  then have absent: "run_path (endpoint f) \<notin> dom (dynamic_routers s)"
    and added: "add_flow_route fw s f = Inr s'"
    by simp_all
  from added absent have
    "(case flow_router fw f of
        Inl e \<Rightarrow> Inl e
      | Inr router \<Rightarrow>
          Inr (s\<lparr>app := (include_router (app s) router)\<lparr>openapi_schema := None\<rparr>,
                 dynamic_routers := (dynamic_routers s)(run_path (endpoint f) \<mapsto> router),
                 logger := logger s @
                   [info ([0x2705] @ lit '' Dynamically added route: POST '' @
                          run_path (endpoint f))]\<rparr>)) = Inr s'"
    by (simp add: add_flow_route_def Let_def)
  then obtain router where r: "flow_router fw f = Inr router"
    and s': "s' = s\<lparr>app := (include_router (app s) router)\<lparr>openapi_schema := None\<rparr>,
        dynamic_routers := (dynamic_routers s)(run_path (endpoint f) \<mapsto> router),
        logger := logger s @
          [info ([0x2705] @ lit '' Dynamically added route: POST '' @ run_path (endpoint f))]\<rparr>"
    by (cases "flow_router fw f") auto
  from flow_router_route [OF r] obtain segs where
    rt: "routes router = [\<lparr>route_path = run_path (endpoint f), path_regex = segs,
                       route_methods = [lit ''POST''], route_tags = [lit ''Runnable Flows''],
                       route_summary = description f,
                       route_endpoint = ExecuteFlowEndpoint f\<rparr>]"
    by blast
  show "run_path (endpoint f) = lit ''/run/'' @ endpoint f"
    by (simp add: run_path_def)
  show "\<exists>router. flow_router fw f = Inr router \<and>
         dynamic_routers s' = (dynamic_routers s)(lit ''/run/'' @ endpoint f \<mapsto> router) \<and>
         map route_path (routes router) = [lit ''/run/'' @ endpoint f] \<and>
         map route_endpoint (routes router) = [ExecuteFlowEndpoint f] \<and>
         app_routes (app s') = app_routes (app s) @ routes router"
    using r s' rt by (simp add: run_path_def include_router_def)
  show "openapi_schema (app s') = None"
    using s' by simp
  {
    assume plain: "0x7B \<notin> set (endpoint f)"
    from flow_router_plain [OF plain, of fw] r
    have rt': "routes router = [\<lparr>route_path = run_path (endpoint f),
                       path_regex = map Chr (run_path (endpoint f)),
                       route_methods = [lit ''POST''], route_tags = [lit ''Runnable Flows''],
                       route_summary = description f,
                       route_endpoint = ExecuteFlowEndpoint f\<rparr>]"
      by auto
    have eq: "lit ''/run/'' @ endpoint f = run_path (endpoint f)"
      by (simp add: run_path_def)
    have post: "lit ''POST'' \<in> set [lit ''POST'']"
      by simp
    have m: "path_regex_match (convertor_types fw) (map Chr (run_path (endpoint f)))
        (run_path (endpoint f))"
      by (simp only: path_regex_match_plain) simp
    have routes': "app_routes (app s') = app_routes (app s) @ routes router"
      using s' by (simp add: include_router_def)
    show "serves fw (app s') (lit ''/run/'' @ endpoint f) \<noteq> None"
      unfolding eq serves_def routes' rt' find_app
      using m post by (simp split: option.splits)
    assume "serves fw (app s) (lit ''/run/'' @ endpoint f) = None"
    then show "map_option route_endpoint (serves fw (app s') (lit ''/run/'' @ endpoint f)) =
              Some (ExecuteFlowEndpoint f)"
      unfolding eq serves_def routes' rt' find_app
      using m post by simp
  }
next
  assume "0x7B \<notin> set (endpoint f)"
  then show "\<exists>s2. add_flow_route fw s f = Inr s2"
    by (rule add_flow_route_plain_returns)
qed

theorem add_flow_route_inserts_witness:
  "run_path (endpoint sample_flow) \<notin> dom (dynamic_routers (init sample_app)) \<and>
   add_flow_route sample_framework (init sample_app) sample_flow = Inr sample_service \<and>
   0x7B \<notin> set (endpoint sample_flow) \<and>
   serves sample_framework (app (init sample_app)) (lit ''/run/'' @ endpoint sample_flow) = None \<and>
   map_option route_endpoint
     (serves sample_framework (app sample_service) (lit ''/run/'' @ endpoint sample_flow)) =
     Some (ExecuteFlowEndpoint sample_flow) \<and>
   openapi_schema (app sample_service) = None"
proof -
  have absent: "run_path (endpoint sample_flow) \<notin> dom (dynamic_routers (init sample_app))"
    by (simp add: init_def)
  have plain: "0x7B \<notin> set (endpoint sample_flow)"
    by (simp add: sample_flow_def lit_def)
  have unserved: "serves sample_framework (app (init sample_app))
      (lit ''/run/'' @ endpoint sample_flow) = None"
    by (simp add: init_def sample_app_def sample_flow_def serves_def lit_def)
  from add_flow_route_inserts [of sample_flow "init sample_app" sample_framework sample_service]
    absent plain unserved sample_service_added
  show ?thesis by blast
qed

text \<open>
  C5. \<open>remove_flow_route\<close> on an endpoint name whose derived path is registered deletes
  that key of \<open>dynamic_routers\<close> and nothing else of it, sets the cached schema to \<open>None\<close>,
  and leaves the application's routes as they are, so every path is served exactly as
  before; it logs one informational record. When the path is not registered, the only
  change is one warning record appended to the log.
\<close>

theorem remove_flow_route_frame:
  "(run_path e \<in> dom (dynamic_routers s) \<longrightarrow>
      dynamic_routers (remove_flow_route s e) = (dynamic_routers s)(lit ''/run/'' @ e := None) \<and>
      openapi_schema (app (remove_flow_route s e)) = None \<and>
      app_routes (app (remove_flow_route s e)) = app_routes (app s) \<and>
      serves fw (app (remove_flow_route s e)) p = serves fw (app s) p \<and>
      logger (remove_flow_route s e) =
        logger s @
          [info ([0x26A0, 0xFE0F] @ lit '' Dynamically '' @ [0x27] @ lit ''deactivated'' @ [0x27] @
                 lit '' route: /run/'' @ e @ lit ''. Full removal requires restart.'')] \<and>
      records_at WARNING (logger (remove_flow_route s e)) = records_at WARNING (logger s)) \<and>
   (run_path e \<notin> dom (dynamic_routers s) \<longrightarrow>
      remove_flow_route s e =
        s\<lparr>logger := logger s @
          [warning (lit ''Route /run/'' @ e @ lit '' not found for removal.'')]\<rparr>)"
  by (auto simp add: remove_flow_route_def Let_def run_path_def serves_def records_at_def
      info_def lit_def)

theorem remove_flow_route_frame_witness:
  "run_path (lit ''summarize'') \<in> dom (dynamic_routers sample_service) \<and>
   dynamic_routers (remove_flow_route sample_service (lit ''summarize'')) =
     (dynamic_routers sample_service)(lit ''/run/'' @ lit ''summarize'' := None) \<and>
   app_routes (app (remove_flow_route sample_service (lit ''summarize''))) =
     app_routes (app sample_service) \<and>
   run_path (lit ''summarize'') \<notin> dom (dynamic_routers (init sample_app)) \<and>
   remove_flow_route (init sample_app) (lit ''summarize'') =
     (init sample_app)\<lparr>logger := logger (init sample_app) @
        [warning (lit ''Route /run/'' @ lit ''summarize'' @ lit '' not found for removal.'')]\<rparr>"
proof -
  have "run_path (endpoint sample_flow) \<in> dom (dynamic_routers sample_service)"
    using add_flow_route_registers [OF sample_service_added] .
  then have present: "run_path (lit ''summarize'') \<in> dom (dynamic_routers sample_service)"
    by (simp add: sample_flow_def)
  have absent: "run_path (lit ''summarize'') \<notin> dom (dynamic_routers (init sample_app))"
    by (simp add: init_def)
  from remove_flow_route_frame [of "lit ''summarize''" sample_service sample_framework "[]"]
    remove_flow_route_frame [of "lit ''summarize''" "init sample_app" sample_framework "[]"]
    present absent
  show ?thesis by blast
qed

text \<open>
  C10, as the claim states it, fails: for the flow whose endpoint name is \<open>{x}/{x}\<close>,
  after \<open>remove_flow_route\<close> on that name the derived path is not a key, so
  \<open>add_flow_route\<close> takes the insertion branch, and there it raises at the route
  declaration: nothing is inserted again.
\<close>

theorem remove_then_add_twice_name_raises:
  "run_path (endpoint twice_flow) \<notin>
     dom (dynamic_routers (remove_flow_route (init sample_app) (endpoint twice_flow))) \<and>
   add_flow_route sample_framework (remove_flow_route (init sample_app) (endpoint twice_flow))
       twice_flow =
     Inl (Exception (lit ''Duplicated param name x at path /run/{x}/{x}''))"
proof -
  have twice: "flow_router sample_framework twice_flow =
      Inl (Exception (lit ''Duplicated param name x at path /run/{x}/{x}''))"
    by (simp add: flow_router_def api_route_init_def compile_path_def
      twice_flow_def run_path_def lit_def param_at_def name_at_def is_name_start_def
      is_name_char_def param_names_def param_convertors_def sample_framework_def
      sample_convertors_def)
  have absent: "run_path (endpoint twice_flow) \<notin>
     dom (dynamic_routers (remove_flow_route (init sample_app) (endpoint twice_flow)))"
    by (simp add: remove_flow_route_def Let_def init_def)
  with twice show ?thesis
    by (simp add: add_flow_route_def Let_def)
qed

text \<open>
  C10, amended. After \<open>remove_flow_route\<close> on the endpoint name of a flow, whatever the
  state before, the derived path is not a key, so the following \<open>add_flow_route\<close> of that
  flow takes the insertion branch: it raises what the route declaration raises, or it
  returns the service with the router stored under the path. When it returns, the
  dictionary is the original one with the path mapped to the new router (one key for the
  path), the router's route is appended to the application's routes, the cached schema is
  \<open>None\<close>, and the last record logged is the "Dynamically added route" line. It returns
  for every endpoint name without an opening brace.
\<close>

theorem remove_then_add_reinserts:
  "run_path (endpoint f) \<notin> dom (dynamic_routers (remove_flow_route s (endpoint f))) \<and>
   add_flow_route fw (remove_flow_route s (endpoint f)) f =
     (case flow_router fw f of
        Inl e \<Rightarrow> Inl e
      | Inr router \<Rightarrow>
          Inr ((remove_flow_route s (endpoint f))
            \<lparr>app := (include_router (app (remove_flow_route s (endpoint f))) router)
                 \<lparr>openapi_schema := None\<rparr>,
             dynamic_routers := (dynamic_routers s)(lit ''/run/'' @ endpoint f \<mapsto> router),
             logger := logger (remove_flow_route s (endpoint f)) @
               [info ([0x2705] @ lit '' Dynamically added route: POST /run/'' @ endpoint f)]\<rparr>)) \<and>
   (add_flow_route fw (remove_flow_route s (endpoint f)) f = Inr s2 \<longrightarrow>
      (\<exists>router. flow_router fw f = Inr router \<and>
         dynamic_routers s2 = (dynamic_routers s)(lit ''/run/'' @ endpoint f \<mapsto> router) \<and>
         app_routes (app s2) = app_routes (app s) @ routes router) \<and>
      dom (dynamic_routers s2) = insert (lit ''/run/'' @ endpoint f) (dom (dynamic_routers s)) \<and>
      openapi_schema (app s2) = None \<and>
      last (logger s2) =
        info ([0x2705] @ lit '' Dynamically added route: POST /run/'' @ endpoint f)) \<and>
   (0x7B \<notin> set (endpoint f) \<longrightarrow>
      (\<exists>s2. add_flow_route fw (remove_flow_route s (endpoint f)) f = Inr s2))"
proof -
  have absent: "run_path (endpoint f) \<notin> dom (dynamic_routers (remove_flow_route s (endpoint f)))"
    by (simp add: remove_flow_route_def Let_def)
  have branch: "add_flow_route fw (remove_flow_route s (endpoint f)) f =
     (case flow_router fw f of
        Inl e \<Rightarrow> Inl e
      | Inr router \<Rightarrow>
          Inr ((remove_flow_route s (endpoint f))
            \<lparr>app := (include_router (app (remove_flow_route s (endpoint f))) router)
                 \<lparr>openapi_schema := None\<rparr>,
             dynamic_routers := (dynamic_routers s)(lit ''/run/'' @ endpoint f \<mapsto> router),
             logger := logger (remove_flow_route s (endpoint f)) @
               [info ([0x2705] @ lit '' Dynamically added route: POST /run/'' @ endpoint f)]\<rparr>))"
    using absent
    by (auto simp add: add_flow_route_def remove_flow_route_def Let_def run_path_def lit_def
        split: sum.splits)
  have after: "add_flow_route fw (remove_flow_route s (endpoint f)) f = Inr s2 \<longrightarrow>
      (\<exists>router. flow_router fw f = Inr router \<and>
         dynamic_routers s2 = (dynamic_routers s)(lit ''/run/'' @ endpoint f \<mapsto> router) \<and>
         app_routes (app s2) = app_routes (app s) @ routes router) \<and>
      dom (dynamic_routers s2) = insert (lit ''/run/'' @ endpoint f) (dom (dynamic_routers s)) \<and>
      openapi_schema (app s2) = None \<and>
      last (logger s2) =
        info ([0x2705] @ lit '' Dynamically added route: POST /run/'' @ endpoint f)"
    by (auto simp add: add_flow_route_def remove_flow_route_def Let_def run_path_def lit_def
        include_router_def split: sum.splits)
  have returns: "0x7B \<notin> set (endpoint f) \<longrightarrow>
      (\<exists>s2. add_flow_route fw (remove_flow_route s (endpoint f)) f = Inr s2)"
    using add_flow_route_plain_returns by blast
  from absent branch after returns show ?thesis by blast
qed

theorem remove_then_add_reinserts_witness:
  "0x7B \<notin> set (endpoint sample_flow) \<and>
   run_path (endpoint sample_flow) \<notin>
     dom (dynamic_routers (remove_flow_route sample_service (endpoint sample_flow))) \<and>
   (\<exists>s2. add_flow_route sample_framework
      (remove_flow_route sample_service (endpoint sample_flow)) sample_flow = Inr s2)"
proof -
  have plain: "0x7B \<notin> set (endpoint sample_flow)"
    by (simp add: sample_flow_def lit_def)
  from remove_then_add_reinserts [of sample_flow sample_service sample_framework] plain
  show ?thesis by blast
qed


section \<open>The bound handler of a dynamic route\<close>

text \<open>
  C2. Whatever the engine call of \<open>execute_flow_endpoint\<close> does among returning a
  successful result, returning a result with \<open>success\<close> false, or raising an \<open>Exception\<close>,
  the handler returns a dictionary: with \<open>success: True\<close>, \<open>result\<close>, \<open>session_id\<close> and
  \<open>execution_time\<close> in the first case; with \<open>success: False\<close> and the result's \<open>error\<close> in
  the second; with \<open>success: False\<close> and \<open>str(e)\<close> as \<open>error\<close> in the third, after one
  error-level record with the traceback. In all three the \<open>success\<close> entry is a boolean
  and exactly one of the keys \<open>result\<close> and \<open>error\<close> is present, \<open>result\<close> exactly when
  \<open>success\<close> is true. (An exception outside the \<open>Exception\<close> hierarchy, such as a task
  cancellation, is not handled by \<open>except Exception\<close> and is not among these outcomes.)
\<close>

theorem execute_flow_endpoint_envelope:
  "(execute_flow (model_dump (flow_body flow)) user_input = Inr r \<and> success r \<longrightarrow>
      execute_flow_endpoint flow execute_flow user_input =
        ([], Inr [(''success'', VBool True), (''result'', VOutputs (outputs r)),
                  (''session_id'', VSessionId (session_id r)),
                  (''execution_time'', VExecutionTime (execution_time r))])) \<and>
   (execute_flow (model_dump (flow_body flow)) user_input = Inr r \<and> \<not> success r \<longrightarrow>
      execute_flow_endpoint flow execute_flow user_input =
        ([], Inr [(''success'', VBool False), (''error'', VError (error r))])) \<and>
   (execute_flow (model_dump (flow_body flow)) user_input = Inl (Exception m) \<longrightarrow>
      execute_flow_endpoint flow execute_flow user_input =
        ([\<lparr>levelname = ERROR,
           message = lit ''Error executing dynamic flow '' @ [0x27] @ endpoint flow @ [0x27] @
                     lit '': '' @ m,
           exc_info = True\<rparr>],
         Inr [(''success'', VBool False), (''error'', VStr m)])) \<and>
   ((\<exists>r. execute_flow (model_dump (flow_body flow)) user_input = Inr r) \<or>
    (\<exists>m. execute_flow (model_dump (flow_body flow)) user_input = Inl (Exception m)) \<longrightarrow>
      (\<exists>env b. snd (execute_flow_endpoint flow execute_flow user_input) = Inr env \<and>
         map_of env ''success'' = Some (VBool b) \<and>
         (map_of env ''result'' \<noteq> None) = b \<and>
         (map_of env ''error'' \<noteq> None) = (\<not> b)))"
  by (auto simp add: execute_flow_endpoint_def Let_def)

theorem execute_flow_endpoint_envelope_witness:
  "engine_returns True (model_dump (flow_body sample_flow)) (lit ''hi'') = Inr (sample_result True) \<and>
   success (sample_result True) \<and>
   execute_flow_endpoint sample_flow (engine_returns True) (lit ''hi'') =
     ([], Inr [(''success'', VBool True), (''result'', VOutputs (outputs (sample_result True))),
               (''session_id'', VSessionId (session_id (sample_result True))),
               (''execution_time'', VExecutionTime (execution_time (sample_result True)))]) \<and>
   engine_returns False (model_dump (flow_body sample_flow)) (lit ''hi'') = Inr (sample_result False) \<and>
   \<not> success (sample_result False) \<and>
   execute_flow_endpoint sample_flow (engine_returns False) (lit ''hi'') =
     ([], Inr [(''success'', VBool False), (''error'', VError (error (sample_result False)))]) \<and>
   engine_raises (model_dump (flow_body sample_flow)) (lit ''hi'') = Inl (Exception (lit ''timeout'')) \<and>
   snd (execute_flow_endpoint sample_flow engine_raises (lit ''hi'')) =
     Inr [(''success'', VBool False), (''error'', VStr (lit ''timeout''))]"
proof -
  have ok: "engine_returns True (model_dump (flow_body sample_flow)) (lit ''hi'') =
      Inr (sample_result True) \<and> success (sample_result True)"
    by (simp add: engine_returns_def sample_result_def)
  have failed: "engine_returns False (model_dump (flow_body sample_flow)) (lit ''hi'') =
      Inr (sample_result False) \<and> \<not> success (sample_result False)"
    by (simp add: engine_returns_def sample_result_def)
  have raised: "engine_raises (model_dump (flow_body sample_flow)) (lit ''hi'') =
      Inl (Exception (lit ''timeout''))"
    by (simp add: engine_raises_def)
  from execute_flow_endpoint_envelope
      [of "engine_returns True" sample_flow "lit ''hi''" "sample_result True" "[]"]
    execute_flow_endpoint_envelope
      [of "engine_returns False" sample_flow "lit ''hi''" "sample_result False" "[]"]
    execute_flow_endpoint_envelope
      [of engine_raises sample_flow "lit ''hi''" "sample_result True" "lit ''timeout''"]
    ok failed raised
  show ?thesis by simp
qed


section \<open>The request middleware\<close>

subsection \<open>String operations\<close>

lemma startswith_iff: "startswith s p \<longleftrightarrow> (\<exists>t. s = p @ t)"
  by (induction s p rule: startswith.induct) auto

lemma endswith_iff: "endswith s x \<longleftrightarrow> (\<exists>t. s = t @ x)"
proof -
  have "endswith s x \<longleftrightarrow> (\<exists>t. rev s = rev x @ t)"
    by (simp add: endswith_def startswith_iff)
  also have "\<dots> \<longleftrightarrow> (\<exists>t. s = t @ x)"
  proof
    assume "\<exists>t. rev s = rev x @ t"
    then obtain t where "rev s = rev x @ t" ..
    then have "rev (rev s) = rev (rev x @ t)" by simp
    then have "s = rev t @ x" by simp
    then show "\<exists>t. s = t @ x" ..
  next
    assume "\<exists>t. s = t @ x"
    then obtain t where "s = t @ x" ..
    then have "rev s = rev x @ rev t" by simp
    then show "\<exists>t. rev s = rev x @ t" ..
  qed
  finally show ?thesis .
qed

lemma dropWhile_eq_drops_run:
  "\<exists>n. xs = replicate n c @ dropWhile (\<lambda>x. x = c) xs \<and>
       (dropWhile (\<lambda>x. x = c) xs = [] \<or> hd (dropWhile (\<lambda>x. x = c) xs) \<noteq> c)"
proof (induction xs)
  case Nil
  then show ?case by simp
next
  case (Cons a xs)
  show ?case
  proof (cases "a = c")
    case True
    from Cons obtain n where "xs = replicate n c @ dropWhile (\<lambda>x. x = c) xs"
      and "dropWhile (\<lambda>x. x = c) xs = [] \<or> hd (dropWhile (\<lambda>x. x = c) xs) \<noteq> c"
      by blast
    with True have "a # xs = replicate (Suc n) c @ dropWhile (\<lambda>x. x = c) (a # xs) \<and>
        (dropWhile (\<lambda>x. x = c) (a # xs) = [] \<or> hd (dropWhile (\<lambda>x. x = c) (a # xs)) \<noteq> c)"
      by simp
    then show ?thesis ..
  next
    case False
    then have "a # xs = replicate 0 c @ dropWhile (\<lambda>x. x = c) (a # xs) \<and>
        (dropWhile (\<lambda>x. x = c) (a # xs) = [] \<or> hd (dropWhile (\<lambda>x. x = c) (a # xs)) \<noteq> c)"
      by simp
    then show ?thesis ..
  qed
qed

lemma rstrip_strips_trailing:
  "\<exists>n. s = rstrip c s @ replicate n c \<and> (rstrip c s = [] \<or> last (rstrip c s) \<noteq> c)"
proof -
  from dropWhile_eq_drops_run [of "rev s" c]
  obtain n where a: "rev s = replicate n c @ dropWhile (\<lambda>x. x = c) (rev s)"
    and b: "dropWhile (\<lambda>x. x = c) (rev s) = [] \<or> hd (dropWhile (\<lambda>x. x = c) (rev s)) \<noteq> c"
    by blast
  from a have "rev (rev s) = rev (replicate n c @ dropWhile (\<lambda>x. x = c) (rev s))"
    by simp
  then have "s = rstrip c s @ replicate n c"
    by (simp add: rstrip_def)
  moreover from b have "rstrip c s = [] \<or> last (rstrip c s) \<noteq> c"
    by (auto simp add: rstrip_def last_rev)
  ultimately show ?thesis by blast
qed

subsection \<open>The noise filter\<close>

text \<open>
  Without a fault in the filter block and for a method other than \<open>POST\<close>, nothing is
  logged exactly when the method is \<open>GET\<close>, the status is 404 and the path is
  scanner-like.
\<close>

lemma noise_filter_decision:
  "filter_fault env = None \<Longrightarrow> call_next env request = Inr response \<Longrightarrow>
   req_method request \<noteq> lit ''POST'' \<Longrightarrow>
   fst (log_requests env request) = [] \<longleftrightarrow>
     (req_method request = lit ''GET'' \<and> status_code response = 404 \<and>
      is_scanner_like (if req_path request \<noteq> [] then req_path request else lit ''/''))"
  by (auto simp add: log_requests_def body_logging_def noise_try_def Let_def access_lines_def
      split: bool.splits)

text \<open>
  \<open>skip_prefixes\<close> contains \<open>"/"\<close>, and the list is matched with \<open>startswith\<close>: every
  path that begins with a slash is scanner-like.
\<close>

lemma every_rooted_path_is_scanner_like:
  "startswith path (lit ''/'') \<Longrightarrow> is_scanner_like path"
  by (simp add: is_scanner_like_def skip_prefixes_def)

lemma favicon_404_is_suppressed:
  "log_requests (sample_env 404) (sample_request ''GET'' ''/favicon.ico'' []) =
     ([], Inr \<lparr>status_code = 404\<rparr>)"
  by (simp add: log_requests_def body_logging_def noise_try_def Let_def sample_env_def
      sample_request_def respond_def is_scanner_like_def skip_prefixes_def lit_def)

lemma root_200_is_logged:
  "fst (log_requests (sample_env 200) (sample_request ''GET'' ''/'' [])) =
     [info ([0x1F310] @ lit '' GET / - Client: 10.0.0.7''),
      info ([0x2705] @ lit '' GET / - Status: 200 - Time: 0.001s'')]"
  by (simp add: log_requests_def body_logging_def noise_try_def Let_def sample_env_def
      sample_request_def respond_def access_lines_def str_int_def str_nat.simps lit_def)

text \<open>
  C1. A \<open>GET\<close> of \<open>/run/summarize\<close> answered with status 404: \<open>log_requests\<close> returns
  the response and logs nothing, neither of the two access-log records. The path starts
  with the entry \<open>"/"\<close> of \<open>skip_prefixes\<close>, so the filter takes it for scanner noise.
\<close>

theorem log_requests_suppresses_run_summarize:
  "log_requests (sample_env 404) (sample_request ''GET'' ''/run/summarize'' []) =
     ([], Inr \<lparr>status_code = 404\<rparr>)"
  by (simp add: log_requests_def body_logging_def noise_try_def Let_def sample_env_def
      sample_request_def respond_def is_scanner_like_def skip_prefixes_def lit_def)

subsection \<open>Body logging\<close>








subsection \<open>Failures while logging\<close>




subsection \<open>The forwarded prefix\<close>

text \<open>
  \<open>log_requests\<close> over a downstream application that logs nothing is the stage of the
  stack; \<open>_add_middleware\<close> on the empty list puts \<open>log_requests\<close> first, the
  forwarded-prefix middleware second and the CORS middleware third, nested in that order.
\<close>

lemma log_requests_stage_plain:
  "log_requests_stage env (\<lambda>r. ([], call_next env r)) request = log_requests env request"
  by (simp add: log_requests_stage_def log_requests_def
      split: prod.splits option.splits sum.splits py_exception.splits bool.splits)

lemma stack_order:
  "factory_add_middleware [] = [LogRequests, ForwardedPrefixMiddleware, CORSMiddleware]"
  by (simp add: factory_add_middleware_def app_add_middleware_def)

lemma stack_nesting:
  "build_middleware_stack env cors (factory_add_middleware []) inner =
     log_requests_stage env (\<lambda>request. cors inner (forwarded_prefix request))"
  by (simp add: stack_order dispatch_def)

text \<open>
  C8, as the claim states it, fails twice. The first stage of the pipeline is
  \<open>log_requests\<close>, not the forwarded-prefix middleware. And a request that carries the
  header \<open>x-forwarded-prefix\<close> with an empty value and has root path \<open>/api\<close> keeps
  \<open>/api\<close>, which is not the header's value with its trailing slashes stripped (the empty
  string).
\<close>

theorem forwarded_prefix_is_not_first_and_skips_empty:
  "hd (factory_add_middleware []) = LogRequests \<and>
   hd (factory_add_middleware []) \<noteq> ForwardedPrefixMiddleware \<and>
   headers_get (req_headers ((sample_request ''GET'' ''/docs'' [])
       \<lparr>req_headers := [(lit ''x-forwarded-prefix'', [])], root_path := lit ''/api''\<rparr>))
     (lit ''x-forwarded-prefix'') = Some [] \<and>
   root_path (forwarded_prefix ((sample_request ''GET'' ''/docs'' [])
       \<lparr>req_headers := [(lit ''x-forwarded-prefix'', [])], root_path := lit ''/api''\<rparr>)) =
     lit ''/api'' \<and>
   root_path (forwarded_prefix ((sample_request ''GET'' ''/docs'' [])
       \<lparr>req_headers := [(lit ''x-forwarded-prefix'', [])], root_path := lit ''/api''\<rparr>)) \<noteq>
     rstrip 0x2F []"
  by (simp add: factory_add_middleware_def app_add_middleware_def forwarded_prefix_def
      headers_get_def sample_request_def rstrip_def lit_def)

text \<open>
  C8, amended. The forwarded-prefix middleware is the second stage of the pipeline: it
  runs inside \<open>log_requests\<close>, which has logged the body by then, and around the CORS
  middleware and the routes, which receive the request it hands on. For a request whose
  \<open>x-forwarded-prefix\<close> header has a non-empty value, that request is the incoming one
  with its root path replaced by the value without its trailing slashes (the value is the
  new root path followed by slashes only, and the new root path does not end with a
  slash), every other attribute unchanged; a request without the header, or with an empty
  value, is handed on unchanged. The rewrite is a function of the one request.
\<close>

theorem forwarded_prefix_rewrite:
  "factory_add_middleware [] = [LogRequests, ForwardedPrefixMiddleware, CORSMiddleware] \<and>
   build_middleware_stack env cors (factory_add_middleware []) inner =
     log_requests_stage env (\<lambda>request. cors inner (forwarded_prefix request)) \<and>
   (headers_get (req_headers request) (lit ''x-forwarded-prefix'') = Some prefix \<and> prefix \<noteq> [] \<longrightarrow>
      forwarded_prefix request = request\<lparr>root_path := rstrip 0x2F prefix\<rparr> \<and>
      (\<exists>n. prefix = rstrip 0x2F prefix @ replicate n 0x2F) \<and>
      \<not> endswith (rstrip 0x2F prefix) (lit ''/'')) \<and>
   (headers_get (req_headers request) (lit ''x-forwarded-prefix'') = None \<or>
    headers_get (req_headers request) (lit ''x-forwarded-prefix'') = Some [] \<longrightarrow>
      forwarded_prefix request = request) \<and>
   dispatch request downstream = downstream (forwarded_prefix request)"
proof -
  obtain n where a: "prefix = rstrip 0x2F prefix @ replicate n 0x2F"
    and b: "rstrip 0x2F prefix = [] \<or> last (rstrip 0x2F prefix) \<noteq> 0x2F"
    using rstrip_strips_trailing [of prefix "0x2F"] by blast
  have c: "\<not> endswith (rstrip 0x2F prefix) (lit ''/'')"
  proof
    assume "endswith (rstrip 0x2F prefix) (lit ''/'')"
    then have "\<exists>t. rev (rstrip 0x2F prefix) = [0x2F] @ t"
      by (simp add: endswith_def startswith_iff lit_def)
    then obtain t where "rev (rstrip 0x2F prefix) = [0x2F] @ t" ..
    then have "rev (rev (rstrip 0x2F prefix)) = rev ([0x2F] @ t)" by simp
    then have "rstrip 0x2F prefix = rev t @ [0x2F]" by simp
    then have "rstrip 0x2F prefix \<noteq> [] \<and> last (rstrip 0x2F prefix) = 0x2F"
      by (metis last_snoc snoc_eq_iff_butlast)
    with b show False by blast
  qed
  have rewrite: "(headers_get (req_headers request) (lit ''x-forwarded-prefix'') = Some prefix \<and>
        prefix \<noteq> [] \<longrightarrow>
      forwarded_prefix request = request\<lparr>root_path := rstrip 0x2F prefix\<rparr> \<and>
      (\<exists>n. prefix = rstrip 0x2F prefix @ replicate n 0x2F) \<and>
      \<not> endswith (rstrip 0x2F prefix) (lit ''/'')) \<and>
   (headers_get (req_headers request) (lit ''x-forwarded-prefix'') = None \<or>
    headers_get (req_headers request) (lit ''x-forwarded-prefix'') = Some [] \<longrightarrow>
      forwarded_prefix request = request) \<and>
   dispatch request downstream = downstream (forwarded_prefix request)"
    using a c by (auto simp add: forwarded_prefix_def dispatch_def)
  from stack_order stack_nesting [of env cors inner] rewrite show ?thesis
    by blast
qed

theorem forwarded_prefix_rewrite_witness:
  "root_path (forwarded_prefix ((sample_request ''GET'' ''/docs'' [])
       \<lparr>req_headers := [(lit ''x-forwarded-prefix'', lit ''/coe//'')], root_path := lit ''/api''\<rparr>)) =
     lit ''/coe'' \<and>
   forwarded_prefix (sample_request ''GET'' ''/docs'' []) = sample_request ''GET'' ''/docs'' []"
  using forwarded_prefix_rewrite [of "sample_env 200" id "\<lambda>r. ([], call_next (sample_env 200) r)"
      "(sample_request ''GET'' ''/docs'' [])
       \<lparr>req_headers := [(lit ''x-forwarded-prefix'', lit ''/coe//'')], root_path := lit ''/api''\<rparr>"
      "lit ''/coe//''" id]
    forwarded_prefix_rewrite [of "sample_env 200" id "\<lambda>r. ([], call_next (sample_env 200) r)"
      "sample_request ''GET'' ''/docs'' []" "[]" id]
  by (simp add: headers_get_def sample_request_def rstrip_def lit_def)

end
